theory Spec2Isabelle
  imports Main
begin

section \<open>The KDB+ query gateway (kdb_server.py)\<close>

text \<open>
  The module keeps one global, \<^verbatim>\<open>kdb_connection\<close>, and offers five functions:
  \<^verbatim>\<open>connect_to_kdb\<close>, \<^verbatim>\<open>execute_kdb_query\<close>, \<^verbatim>\<open>get_connection_status\<close>,
  \<^verbatim>\<open>validate_syntax\<close> and \<^verbatim>\<open>get_help\<close>. Everything outside the module (the process
  environment, the kola client, the JSON encoder, the clock) is a field of a record
  \<open>world\<close>, so that each function is a total HOL function of the world, the global and
  its arguments. A function returns its result, the global afterwards and the list of
  calls it made to the database client.

  Python strings are modelled as \<open>string\<close>; a \<open>char\<close> stands for a code point below 256.
  The \<^verbatim>\<open>print\<close> calls of the module are not modelled, and every call to a
  collaborator has an outcome: it returns or it raises (a client call that blocks for
  ever is outside the model).
\<close>

subsection \<open>Exceptions\<close>

text \<open>
  \<open>PyException m\<close> is an instance of \<^verbatim>\<open>Exception\<close> whose \<^verbatim>\<open>str()\<close> is \<open>m\<close>: it is what
  \<^verbatim>\<open>except Exception\<close> catches. \<open>PyBaseException m\<close> is an exception outside
  \<^verbatim>\<open>Exception\<close> (\<^verbatim>\<open>KeyboardInterrupt\<close>, \<^verbatim>\<open>SystemExit\<close>), which that clause lets through.
  \<open>ValueError s\<close> is what \<^verbatim>\<open>int(s)\<close> raises on a string \<open>s\<close> that is no integer literal.
\<close>

datatype exn = PyException string | PyBaseException string

datatype value_error = ValueError string

subsection \<open>Python's \<^verbatim>\<open>str.strip\<close> and \<^verbatim>\<open>int\<close>\<close>

text \<open>The code points below 256 for which \<^verbatim>\<open>str.isspace\<close> holds.\<close>

definition py_isspace :: "char \<Rightarrow> bool" where
  "py_isspace c = ((of_char c :: nat) \<in> {9, 10, 11, 12, 13, 28, 29, 30, 31, 32, 133, 160})"

definition py_strip :: "string \<Rightarrow> string" where
  "py_strip s = rev (dropWhile py_isspace (rev (dropWhile py_isspace s)))"

definition is_digit :: "char \<Rightarrow> bool" where
  "is_digit c = (48 \<le> (of_char c :: nat) \<and> (of_char c :: nat) \<le> 57)"

definition digit_val :: "char \<Rightarrow> nat" where
  "digit_val c = of_char c - 48"

text \<open>
  The digits of a decimal literal after its first digit: digits, each optionally preceded
  by one underscore. The accumulator is the value read so far.
\<close>

fun parse_digits :: "nat \<Rightarrow> string \<Rightarrow> nat option" where
  "parse_digits acc [] = Some acc"
| "parse_digits acc [c] = (if is_digit c then Some (acc * 10 + digit_val c) else None)"
| "parse_digits acc (c # d # ds) =
     (if is_digit c then parse_digits (acc * 10 + digit_val c) (d # ds)
      else if c = CHR ''_'' \<and> is_digit d then parse_digits (acc * 10 + digit_val d) ds
      else None)"

text \<open>
  \<^verbatim>\<open>int(s)\<close> for a string, base 10: surrounding whitespace is dropped, one sign is allowed,
  then a decimal literal. The limit on the number of digits of recent Python versions
  is not modelled.
\<close>

definition py_int :: "string \<Rightarrow> value_error + int" where
  "py_int s =
     (let t = py_strip s;
          neg = (case t of [] \<Rightarrow> False | c # _ \<Rightarrow> c = CHR ''-'');
          body = (case t of [] \<Rightarrow> [] | c # r \<Rightarrow> if c = CHR ''-'' \<or> c = CHR ''+'' then r else t)
      in case body of
           [] \<Rightarrow> Inl (ValueError s)
         | d # ds \<Rightarrow>
             if is_digit d then
               (case parse_digits (digit_val d) ds of
                  None \<Rightarrow> Inl (ValueError s)
                | Some n \<Rightarrow> Inr (if neg then - int n else int n))
             else Inl (ValueError s))"

subsection \<open>Data\<close>

text \<open>
  The values handed to \<^verbatim>\<open>json.dumps\<close>. \<open>JData v\<close> is a value received from the
  database, of the opaque type \<open>'v\<close>. A dictionary literal is an association list in the
  order of the source; a key that is not in the list is absent from the JSON object.
\<close>

datatype 'v json =
    JNull
  | JBool bool
  | JInt int
  | JStr string
  | JData 'v
  | JList "'v json list"
  | JObj "(string \<times> 'v json) list"

type_synonym 'v pydict = "(string \<times> 'v json) list"

text \<open>The module's global: \<^verbatim>\<open>kdb_connection = None\<close> at import.\<close>

record 'h globals =
  kdb_connection :: "'h option"

definition initial_globals :: "'h globals" where
  "initial_globals = \<lparr>kdb_connection = None\<rparr>"

text \<open>
  The calls made to the database client, in order: \<^verbatim>\<open>kola.Q(host=, port=)\<close>,
  \<^verbatim>\<open>handle.connect()\<close> and \<^verbatim>\<open>handle.sync(query)\<close>. A call is recorded when it is
  made, whether it returns or raises.
\<close>

datatype 'h event = EvOpen string int | EvConnect 'h | EvSync 'h string

text \<open>
  The collaborators. \<open>getenv\<close> is \<^verbatim>\<open>os.environ\<close>; \<open>kola_Q host port\<close> is the outcome of
  \<^verbatim>\<open>kola.Q(host=host, port=port)\<close>; \<open>q_connect h\<close> is the exception raised by
  \<^verbatim>\<open>h.connect()\<close>, if any; \<open>q_sync h query\<close> is the outcome of \<^verbatim>\<open>h.sync(query)\<close>;
  \<open>py_method r\<close> is \<open>None\<close> when \<^verbatim>\<open>hasattr(r, 'py')\<close> is false and the outcome of
  \<^verbatim>\<open>r.py()\<close> otherwise; \<open>type_name v\<close> is \<^verbatim>\<open>type(v).__name__\<close>; \<open>json_dumps_raises v\<close>
  is the exception raised by \<^verbatim>\<open>json.dumps(..., default=str)\<close> on a response whose data
  is \<open>v\<close>, if any; \<open>clock k\<close> is the \<open>k\<close>-th reading of
  \<^verbatim>\<open>datetime.now().isoformat()\<close> during the call, counted from 0.
\<close>

record ('h, 'v) world =
  getenv :: "string \<Rightarrow> string option"
  kola_Q :: "string \<Rightarrow> int \<Rightarrow> exn + 'h"
  q_connect :: "'h \<Rightarrow> exn option"
  q_sync :: "'h \<Rightarrow> string \<Rightarrow> exn + 'v"
  py_method :: "'v \<Rightarrow> (exn + 'v) option"
  type_name :: "'v \<Rightarrow> string"
  json_dumps_raises :: "'v \<Rightarrow> exn option"
  clock :: "nat \<Rightarrow> string"

subsection \<open>The functions of the module\<close>

text \<open>\<^verbatim>\<open>os.getenv('KDB_HOST', 'localhost')\<close> and \<^verbatim>\<open>int(os.getenv('KDB_PORT', 4000))\<close>.\<close>

definition getenv_host :: "('h, 'v) world \<Rightarrow> string" where
  "getenv_host w = (case getenv w ''KDB_HOST'' of None \<Rightarrow> ''localhost'' | Some h \<Rightarrow> h)"

definition getenv_port :: "('h, 'v) world \<Rightarrow> value_error + int" where
  "getenv_port w = (case getenv w ''KDB_PORT'' of None \<Rightarrow> Inr 4000 | Some p \<Rightarrow> py_int p)"

text \<open>
  \<^verbatim>\<open>connect_to_kdb\<close>: the whole body is inside \<^verbatim>\<open>try ... except Exception\<close>, which
  returns \<^verbatim>\<open>False\<close>. The global is assigned only when \<^verbatim>\<open>kola.Q\<close> has returned.
\<close>

definition connect_to_kdb ::
  "('h, 'v) world \<Rightarrow> 'h globals \<Rightarrow> (exn + bool) \<times> 'h globals \<times> 'h event list" where
  "connect_to_kdb w s =
     (let host = getenv_host w in
      case getenv_port w of
        Inl (ValueError _) \<Rightarrow> (Inr False, s, [])
      | Inr port \<Rightarrow>
          (case kola_Q w host port of
             Inr h \<Rightarrow> (Inr True, s\<lparr>kdb_connection := Some h\<rparr>, [EvOpen host port])
           | Inl (PyException m) \<Rightarrow> (Inr False, s, [EvOpen host port])
           | Inl (PyBaseException m) \<Rightarrow> (Inl (PyBaseException m), s, [EvOpen host port])))"

text \<open>The dictionary of the two failure returns of \<^verbatim>\<open>execute_kdb_query\<close>.\<close>

definition failure_envelope :: "string \<Rightarrow> string \<Rightarrow> string \<Rightarrow> 'v pydict" where
  "failure_envelope msg query ts =
     [(''success'', JBool False), (''error'', JStr msg), (''query'', JStr query),
      (''timestamp'', JStr ts)]"

text \<open>The dictionary \<^verbatim>\<open>response\<close> of the successful return.\<close>

definition success_envelope :: "'v \<Rightarrow> string \<Rightarrow> string \<Rightarrow> string \<Rightarrow> 'v pydict" where
  "success_envelope py_result tname query ts =
     [(''success'', JBool True), (''error'', JNull),
      (''result'', JObj [(''data'', JData py_result), (''type'', JStr tname)]),
      (''query'', JStr query), (''timestamp'', JStr ts)]"

text \<open>
  The handler \<^verbatim>\<open>except Exception as e\<close> of \<^verbatim>\<open>execute_kdb_query\<close>, entered with the
  exception \<open>e\<close> after \<open>k\<close> readings of the clock.
\<close>

definition on_exception ::
  "('h, 'v) world \<Rightarrow> string \<Rightarrow> nat \<Rightarrow> exn \<Rightarrow> 'h globals \<Rightarrow> 'h event list \<Rightarrow>
     (exn + 'v pydict) \<times> 'h globals \<times> 'h event list" where
  "on_exception w query k e s tr =
     (case e of
        PyException m \<Rightarrow> (Inr (failure_envelope m query (clock w k)), s, tr)
      | PyBaseException m \<Rightarrow> (Inl e, s, tr))"

text \<open>The message of the \<^verbatim>\<open>AttributeError\<close> raised by \<^verbatim>\<open>None.connect()\<close>.\<close>

definition none_connect_message :: string where
  "none_connect_message =
     CHR 0x27 # ''NoneType'' @ CHR 0x27 # '' object has no attribute '' @
     CHR 0x27 # ''connect'' @ [CHR 0x27]"

text \<open>
  The part of \<^verbatim>\<open>execute_kdb_query\<close> after the connection check (from
  \<^verbatim>\<open>kdb_connection.connect()\<close> to the successful return), started with the calls \<open>tr\<close>
  already made.
\<close>

definition submit ::
  "('h, 'v) world \<Rightarrow> string \<Rightarrow> 'h globals \<Rightarrow> 'h event list \<Rightarrow>
     (exn + 'v pydict) \<times> 'h globals \<times> 'h event list" where
  "submit w query s tr =
     (case kdb_connection s of
        None \<Rightarrow> on_exception w query 0 (PyException none_connect_message) s tr
      | Some h \<Rightarrow>
          (case q_connect w h of
             Some e \<Rightarrow> on_exception w query 0 e s (tr @ [EvConnect h])
           | None \<Rightarrow>
               (case q_sync w h query of
                  Inl e \<Rightarrow> on_exception w query 0 e s (tr @ [EvConnect h, EvSync h query])
                | Inr result \<Rightarrow>
                    (case (case py_method w result of None \<Rightarrow> Inr result | Some r \<Rightarrow> r) of
                       Inl e \<Rightarrow>
                         on_exception w query 0 e s (tr @ [EvConnect h, EvSync h query])
                     | Inr py_result \<Rightarrow>
                         (case json_dumps_raises w py_result of
                            Some e \<Rightarrow>
                              on_exception w query 1 e s (tr @ [EvConnect h, EvSync h query])
                          | None \<Rightarrow>
                              (Inr (success_envelope py_result (type_name w py_result) query
                                      (clock w 0)),
                               s, tr @ [EvConnect h, EvSync h query]))))))"

definition execute_kdb_query ::
  "('h, 'v) world \<Rightarrow> string \<Rightarrow> 'h globals \<Rightarrow>
     (exn + 'v pydict) \<times> 'h globals \<times> 'h event list" where
  "execute_kdb_query w query s =
     (if kdb_connection s = None then
        (case connect_to_kdb w s of
           (Inl e, s1, tr) \<Rightarrow> on_exception w query 0 e s1 tr
         | (Inr False, s1, tr) \<Rightarrow>
             (Inr (failure_envelope ''Cannot connect to KDB+'' query (clock w 0)), s1, tr)
         | (Inr True, s1, tr) \<Rightarrow> submit w query s1 tr)
      else submit w query s [])"

text \<open>\<^verbatim>\<open>get_connection_status\<close>: no \<^verbatim>\<open>try\<close>; the \<^verbatim>\<open>ValueError\<close> of \<^verbatim>\<open>int\<close> leaves the function.\<close>

definition get_connection_status ::
  "('h, 'v) world \<Rightarrow> 'h globals \<Rightarrow> (value_error + 'v pydict) \<times> 'h globals \<times> 'h event list" where
  "get_connection_status w s =
     (let is_connected = (kdb_connection s \<noteq> None) in
      case getenv_port w of
        Inl e \<Rightarrow> (Inl e, s, [])
      | Inr port \<Rightarrow>
          (Inr [(''connected'', JBool is_connected), (''host'', JStr (getenv_host w)),
                (''port'', JInt port), (''timestamp'', JStr (clock w 0))],
           s, []))"

definition validate_syntax :: "('h, 'v) world \<Rightarrow> string \<Rightarrow> 'v pydict" where
  "validate_syntax w query =
     (let valid = (0 < length (py_strip query));
          warnings = [];
          (valid, warnings) =
            (if py_strip query = [] then (False, warnings @ [''Empty query''])
             else (valid, warnings))
      in [(''query'', JStr query), (''valid'', JBool valid),
          (''warnings'', JList (map JStr warnings)), (''timestamp'', JStr (clock w 0))])"

definition get_help :: "string \<Rightarrow> string" where
  "get_help topic =
     (if topic = ''select'' then ''KDB+ SELECT: select [columns] from table [where conditions]''
      else ''Available help topics: select'')"

subsection \<open>The tool-invocation surface\<close>

text \<open>The four functions registered with \<^verbatim>\<open>@mcp.tool()\<close>: each calls one function above.\<close>

definition execute_query ::
  "('h, 'v) world \<Rightarrow> string \<Rightarrow> 'h globals \<Rightarrow>
     (exn + 'v pydict) \<times> 'h globals \<times> 'h event list" where
  "execute_query w query s = execute_kdb_query w query s"

definition connection_status ::
  "('h, 'v) world \<Rightarrow> 'h globals \<Rightarrow> (value_error + 'v pydict) \<times> 'h globals \<times> 'h event list" where
  "connection_status w s = get_connection_status w s"

definition syntax_check :: "('h, 'v) world \<Rightarrow> string \<Rightarrow> 'v pydict" where
  "syntax_check w query = validate_syntax w query"

definition help_info :: "string \<Rightarrow> string" where
  "help_info topic = get_help topic"

subsection \<open>Sequences of calls\<close>

text \<open>
  A call of \<^verbatim>\<open>connect_to_kdb\<close> (made by \<^verbatim>\<open>run_server\<close> and \<^verbatim>\<open>test_connection\<close>) or of
  one of the four tools. \<open>after_call w c s\<close> is the global after the call \<open>c\<close> made in the
  world \<open>w\<close> from the global \<open>s\<close>; \<open>after_calls\<close> runs a list of calls, each in its own
  world.
\<close>

datatype call =
    Connect
  | ExecuteQuery string
  | ConnectionStatus
  | SyntaxCheck string
  | HelpInfo string

fun after_call :: "('h, 'v) world \<Rightarrow> call \<Rightarrow> 'h globals \<Rightarrow> 'h globals" where
  "after_call w Connect s = fst (snd (connect_to_kdb w s))"
| "after_call w (ExecuteQuery query) s = fst (snd (execute_query w query s))"
| "after_call w ConnectionStatus s = fst (snd (connection_status w s))"
| "after_call w (SyntaxCheck query) s = s"
| "after_call w (HelpInfo topic) s = s"

fun after_calls :: "(('h, 'v) world \<times> call) list \<Rightarrow> 'h globals \<Rightarrow> 'h globals" where
  "after_calls [] s = s"
| "after_calls ((w, c) # cs) s = after_calls cs (after_call w c s)"

subsection \<open>Example worlds\<close>

text \<open>
  A database that accepts the session and evaluates \<^verbatim>\<open>1+1\<close>, with or without blanks
  around it, rejecting every other query; no environment variable is set.
\<close>

definition reachable_world :: "(nat, int) world" where
  "reachable_world =
     \<lparr>getenv = (\<lambda>k. None),
      kola_Q = (\<lambda>host port. Inr 1),
      q_connect = (\<lambda>h. None),
      q_sync = (\<lambda>h query. if py_strip query = ''1+1'' then Inr 2 else Inl (PyException ''parse'')),
      py_method = (\<lambda>v. None),
      type_name = (\<lambda>v. ''int''),
      json_dumps_raises = (\<lambda>v. None),
      clock = (\<lambda>k. if k = 0 then ''2024-01-01T00:00:00'' else ''2024-01-01T00:00:01'')\<rparr>"

text \<open>No database: \<^verbatim>\<open>kola.Q\<close> raises.\<close>

definition unreachable_world :: "(nat, int) world" where
  "unreachable_world = reachable_world\<lparr>kola_Q := (\<lambda>host port. Inl (PyException ''refused''))\<rparr>"

text \<open>The environment variable \<^verbatim>\<open>KDB_PORT\<close> is set to \<^verbatim>\<open>abc\<close>.\<close>

definition bad_port_world :: "(nat, int) world" where
  "bad_port_world =
     reachable_world\<lparr>getenv := (\<lambda>k. if k = ''KDB_PORT'' then Some ''abc'' else None)\<rparr>"

subsection \<open>The shape of a response envelope\<close>

text \<open>
  \<open>envelope_of q env\<close>: the dictionary \<open>env\<close> is one of the two dictionaries that
  \<^verbatim>\<open>execute_kdb_query\<close> builds for the query \<open>q\<close>.
\<close>

definition envelope_of :: "string \<Rightarrow> 'v pydict \<Rightarrow> bool" where
  "envelope_of q env \<longleftrightarrow>
     (\<exists>m ts. env = failure_envelope m q ts) \<or> (\<exists>v n ts. env = success_envelope v n q ts)"

section \<open>Properties\<close>

subsection \<open>Auxiliary facts\<close>

lemmas world_defs = reachable_world_def unreachable_world_def bad_port_world_def
  getenv_host_def getenv_port_def

lemma py_strip_Nil_iff: "py_strip q = [] \<longleftrightarrow> (\<forall>c\<in>set q. py_isspace c)"
proof
  assume "py_strip q = []"
  then have a: "\<forall>c\<in>set (dropWhile py_isspace q). py_isspace c"
    by (simp add: py_strip_def)
  have "dropWhile py_isspace q = []"
  proof (rule ccontr)
    assume n: "dropWhile py_isspace q \<noteq> []"
    then have "\<not> py_isspace (hd (dropWhile py_isspace q))"
      by (rule hd_dropWhile)
    moreover have "hd (dropWhile py_isspace q) \<in> set (dropWhile py_isspace q)"
      using n by (rule hd_in_set)
    ultimately show False
      using a by blast
  qed
  then show "\<forall>c\<in>set q. py_isspace c"
    by simp
next
  assume "\<forall>c\<in>set q. py_isspace c"
  then have "dropWhile py_isspace q = []"
    by (simp only: dropWhile_eq_Nil_conv)
  then show "py_strip q = []"
    by (simp only: py_strip_def rev.simps dropWhile.simps)
qed

text \<open>The handler returns a failure envelope for an \<^verbatim>\<open>Exception\<close> and lets the rest through.\<close>

lemma on_exception_cases:
  "on_exception w q k e s tr = (r, s', tr') \<Longrightarrow>
     s' = s \<and> tr' = tr \<and>
     ((\<exists>m. e = PyException m \<and> r = Inr (failure_envelope m q (clock w k))) \<or>
      (\<exists>m. e = PyBaseException m \<and> r = Inl e))"
  by (cases e) (auto simp: on_exception_def)

text \<open>The four ways out of \<^verbatim>\<open>connect_to_kdb\<close>.\<close>

lemma connect_to_kdb_cases:
  "connect_to_kdb w s = (r, s', tr) \<Longrightarrow>
     (r = Inr False \<and> s' = s \<and> tr = []) \<or>
     (\<exists>port. getenv_port w = Inr port \<and> tr = [EvOpen (getenv_host w) port] \<and>
        ((\<exists>h. kola_Q w (getenv_host w) port = Inr h \<and> r = Inr True \<and>
            s' = s\<lparr>kdb_connection := Some h\<rparr>) \<or>
         (r = Inr False \<and> s' = s) \<or>
         (\<exists>m. r = Inl (PyBaseException m) \<and> s' = s)))"
  by (auto simp: connect_to_kdb_def Let_def split: sum.splits value_error.splits exn.splits)

lemma connect_to_kdb_catches_bad_port:
  "getenv_port w = Inl e \<Longrightarrow> connect_to_kdb w s = (Inr False, s, [])"
  by (cases e) (simp add: connect_to_kdb_def)

lemma submit_state: "submit w q s tr = (r, s', tr') \<Longrightarrow> s' = s"
  by (auto simp: submit_def split: option.splits sum.splits dest: on_exception_cases)

lemma envelope_of_failure [simp]: "envelope_of q (failure_envelope m q ts)"
  unfolding envelope_of_def by blast

lemma envelope_of_success [simp]: "envelope_of q (success_envelope v n q ts)"
  unfolding envelope_of_def by blast

lemma submit_envelope: "submit w q s tr = (Inr env, s', tr') \<Longrightarrow> envelope_of q env"
  by (auto simp: submit_def split: option.splits sum.splits dest!: on_exception_cases)

lemma execute_envelope: "execute_kdb_query w q s = (Inr env, s', tr') \<Longrightarrow> envelope_of q env"
  by (auto simp: execute_kdb_query_def split: if_splits prod.splits sum.splits bool.splits
      dest!: on_exception_cases dest: submit_envelope)

text \<open>\<^verbatim>\<open>execute_kdb_query\<close> leaves the global alone or sets an absent handle.\<close>

lemma execute_state:
  "execute_kdb_query w q s = (r, s', tr) \<Longrightarrow>
     s' = s \<or> (kdb_connection s = None \<and> (\<exists>h. s' = s\<lparr>kdb_connection := Some h\<rparr>))"
  by (auto simp: execute_kdb_query_def split: if_splits prod.splits sum.splits bool.splits
      dest!: on_exception_cases connect_to_kdb_cases dest: submit_state)

text \<open>No instance of \<^verbatim>\<open>Exception\<close> leaves \<^verbatim>\<open>execute_kdb_query\<close>.\<close>

lemma execute_kdb_query_catches_Exception:
  "fst (execute_kdb_query w q s) \<noteq> Inl (PyException m)"
proof
  assume a: "fst (execute_kdb_query w q s) = Inl (PyException m)"
  obtain r s' tr where e: "execute_kdb_query w q s = (r, s', tr)"
    by (cases "execute_kdb_query w q s") auto
  with a have "execute_kdb_query w q s = (Inl (PyException m), s', tr)"
    by simp
  then show False
    by (auto simp: execute_kdb_query_def submit_def
        split: if_splits prod.splits sum.splits bool.splits option.splits
        dest!: on_exception_cases connect_to_kdb_cases)
qed

text \<open>A call keeps a handle that is present.\<close>

lemma after_call_present:
  "kdb_connection s \<noteq> None \<Longrightarrow> kdb_connection (after_call w c s) \<noteq> None"
proof (cases c)
  case Connect
  assume p: "kdb_connection s \<noteq> None"
  obtain r s' tr where c: "connect_to_kdb w s = (r, s', tr)"
    by (cases "connect_to_kdb w s") auto
  from connect_to_kdb_cases [OF c] p have "kdb_connection s' \<noteq> None"
    by auto
  with c Connect show ?thesis by simp
next
  case (ExecuteQuery query)
  assume p: "kdb_connection s \<noteq> None"
  obtain r s' tr where e: "execute_kdb_query w query s = (r, s', tr)"
    by (cases "execute_kdb_query w query s") auto
  from execute_state [OF e] p have "s' = s" by auto
  with e p ExecuteQuery show ?thesis by (simp add: execute_query_def)
next
  case ConnectionStatus
  assume "kdb_connection s \<noteq> None"
  with ConnectionStatus show ?thesis
    by (simp add: connection_status_def get_connection_status_def split: sum.splits)
qed simp_all

lemma after_calls_present:
  "kdb_connection s \<noteq> None \<Longrightarrow> kdb_connection (after_calls cs s) \<noteq> None"
proof (induction cs arbitrary: s)
  case Nil
  then show ?case by simp
next
  case (Cons a cs)
  obtain w c where a: "a = (w, c)" by (cases a)
  from Cons.prems have "kdb_connection (after_call w c s) \<noteq> None"
    by (rule after_call_present)
  then have "kdb_connection (after_calls cs (after_call w c s)) \<noteq> None"
    by (rule Cons.IH)
  with a show ?case by simp
qed

subsection \<open>Runs in the example worlds\<close>

lemma connect_unreachable:
  "connect_to_kdb unreachable_world s = (Inr False, s, [EvOpen ''localhost'' 4000])"
  by (simp add: connect_to_kdb_def world_defs)

lemma connect_reachable:
  "connect_to_kdb reachable_world initial_globals =
     (Inr True, \<lparr>kdb_connection = Some 1\<rparr>, [EvOpen ''localhost'' 4000])"
  by (simp add: connect_to_kdb_def world_defs initial_globals_def)

lemma execute_reachable_ok:
  "execute_kdb_query reachable_world '' 1+1 '' initial_globals =
     (Inr (success_envelope 2 ''int'' '' 1+1 '' ''2024-01-01T00:00:00''),
      \<lparr>kdb_connection = Some 1\<rparr>, [EvOpen ''localhost'' 4000, EvConnect 1, EvSync 1 '' 1+1 ''])"
  by (simp add: execute_kdb_query_def submit_def connect_to_kdb_def world_defs
      initial_globals_def py_strip_def py_isspace_def)

lemma execute_reachable_bad:
  "execute_kdb_query reachable_world '' bad '' initial_globals =
     (Inr (failure_envelope ''parse'' '' bad '' ''2024-01-01T00:00:00''),
      \<lparr>kdb_connection = Some 1\<rparr>, [EvOpen ''localhost'' 4000, EvConnect 1, EvSync 1 '' bad ''])"
  by (simp add: execute_kdb_query_def submit_def connect_to_kdb_def world_defs on_exception_def
      initial_globals_def py_strip_def py_isspace_def)

lemma execute_unreachable:
  "execute_kdb_query unreachable_world '' 1+1 '' initial_globals =
     (Inr (failure_envelope ''Cannot connect to KDB+'' '' 1+1 '' ''2024-01-01T00:00:00''),
      initial_globals, [EvOpen ''localhost'' 4000])"
  by (simp add: execute_kdb_query_def connect_unreachable initial_globals_def)
    (simp add: world_defs)

lemma execute_present_ok:
  "execute_kdb_query reachable_world ''1+1'' \<lparr>kdb_connection = Some 5\<rparr> =
     (Inr (success_envelope 2 ''int'' ''1+1'' ''2024-01-01T00:00:00''),
      \<lparr>kdb_connection = Some 5\<rparr>, [EvConnect 5, EvSync 5 ''1+1''])"
  by (simp add: execute_kdb_query_def submit_def world_defs py_strip_def py_isspace_def)

subsection \<open>Connection failure\<close>

text \<open>
  C1: for every query string, when no handle exists and the one call of
  \<^verbatim>\<open>connect_to_kdb\<close> returns \<^verbatim>\<open>False\<close>, \<^verbatim>\<open>execute_kdb_query\<close> returns the envelope with
  \<open>success\<close> false, \<open>error\<close> the text \<^verbatim>\<open>Cannot connect to KDB+\<close>, the query as given and a
  timestamp; the envelope has no \<open>result\<close>. The only call made to the client is the one
  \<^verbatim>\<open>kola.Q\<close> of that connection attempt, if the attempt got that far.
\<close>

theorem connect_failure_envelope:
  assumes "kdb_connection s = None" and "connect_to_kdb w s = (Inr False, s', tr)"
  shows "\<exists>env. execute_kdb_query w q s = (Inr env, s', tr) \<and>
           env = [(''success'', JBool False), (''error'', JStr ''Cannot connect to KDB+''),
                  (''query'', JStr q), (''timestamp'', JStr (clock w 0))] \<and>
           map_of env ''result'' = None \<and>
           (tr = [] \<or> (\<exists>host port. tr = [EvOpen host port]))"
  using assms connect_to_kdb_cases [OF assms(2)]
  by (auto simp: execute_kdb_query_def failure_envelope_def)

theorem connect_failure_envelope_witness:
  "kdb_connection (initial_globals :: nat globals) = None \<and>
   connect_to_kdb unreachable_world initial_globals =
     (Inr False, initial_globals, [EvOpen ''localhost'' 4000]) \<and>
   execute_kdb_query unreachable_world '' select from t '' initial_globals =
     (Inr [(''success'', JBool False), (''error'', JStr ''Cannot connect to KDB+''),
           (''query'', JStr '' select from t ''), (''timestamp'', JStr ''2024-01-01T00:00:00'')],
      initial_globals, [EvOpen ''localhost'' 4000])"
proof -
  have c: "connect_to_kdb unreachable_world (initial_globals :: nat globals) =
      (Inr False, initial_globals, [EvOpen ''localhost'' 4000])"
    by (rule connect_unreachable)
  have n: "kdb_connection (initial_globals :: nat globals) = None"
    by (simp add: initial_globals_def)
  show ?thesis
    using connect_failure_envelope [OF n c, of "'' select from t ''"] c n
    by (simp add: world_defs)
qed

subsection \<open>The envelope\<close>

text \<open>
  C2: every envelope returned by \<^verbatim>\<open>execute_kdb_query\<close> has \<open>success\<close> true or false; when
  \<open>success\<close> is true its \<open>error\<close> is null, and when \<open>success\<close> is false it has no \<open>result\<close>.
\<close>

theorem envelope_invariant:
  assumes "execute_kdb_query w q s = (Inr env, s', tr)"
  shows "(map_of env ''success'' = Some (JBool True) \<or>
          map_of env ''success'' = Some (JBool False)) \<and>
         (map_of env ''success'' = Some (JBool True) \<longrightarrow> map_of env ''error'' = Some JNull) \<and>
         (map_of env ''success'' = Some (JBool False) \<longrightarrow> map_of env ''result'' = None)"
  using execute_envelope [OF assms]
  by (auto simp: envelope_of_def failure_envelope_def success_envelope_def)

theorem envelope_invariant_witness:
  "map_of (success_envelope (2::int) ''int'' '' 1+1 '' ''2024-01-01T00:00:00'') ''success''
     = Some (JBool True) \<and>
   map_of (success_envelope (2::int) ''int'' '' 1+1 '' ''2024-01-01T00:00:00'') ''error''
     = Some JNull \<and>
   map_of (failure_envelope ''parse'' '' bad '' ''2024-01-01T00:00:00'' :: int pydict) ''success''
     = Some (JBool False) \<and>
   map_of (failure_envelope ''parse'' '' bad '' ''2024-01-01T00:00:00'' :: int pydict) ''result''
     = None"
  using envelope_invariant [OF execute_reachable_ok] envelope_invariant [OF execute_reachable_bad]
  by (simp add: success_envelope_def failure_envelope_def)

text \<open>
  C5: the \<open>query\<close> field of every envelope returned by \<^verbatim>\<open>execute_kdb_query\<close> is the
  input string itself, blanks included, whichever of the three returns produced it.
\<close>

theorem query_round_trip:
  assumes "execute_kdb_query w q s = (Inr env, s', tr)"
  shows "map_of env ''query'' = Some (JStr q)"
  using execute_envelope [OF assms]
  by (auto simp: envelope_of_def failure_envelope_def success_envelope_def)

theorem query_round_trip_witness:
  "map_of (success_envelope (2::int) ''int'' '' 1+1 '' ''2024-01-01T00:00:00'') ''query''
     = Some (JStr '' 1+1 '') \<and>
   map_of (failure_envelope ''parse'' '' bad '' ''2024-01-01T00:00:00'' :: int pydict) ''query''
     = Some (JStr '' bad '') \<and>
   map_of (failure_envelope ''Cannot connect to KDB+'' '' 1+1 '' ''2024-01-01T00:00:00''
             :: int pydict) ''query''
     = Some (JStr '' 1+1 '')"
  using query_round_trip [OF execute_reachable_ok] query_round_trip [OF execute_reachable_bad]
    query_round_trip [OF execute_unreachable]
  by simp

subsection \<open>Exceptions at the tool surface\<close>

text \<open>
  C3: no tool raises to its caller. The tool \<^verbatim>\<open>connection_status\<close> does: with
  \<^verbatim>\<open>KDB_PORT=abc\<close> the \<^verbatim>\<open>ValueError\<close> of \<^verbatim>\<open>int\<close> leaves it, although
  \<^verbatim>\<open>connect_to_kdb\<close> catches the same error (\<open>connect_to_kdb_catches_bad_port\<close>).
\<close>

theorem connection_status_raises_on_bad_port:
  "connection_status bad_port_world initial_globals =
     (Inl (ValueError ''abc''), initial_globals, [])"
  by (simp add: connection_status_def get_connection_status_def world_defs py_int_def
      py_strip_def py_isspace_def is_digit_def)

subsection \<open>The handle after a failed connection\<close>

text \<open>
  C4, as stated: whatever the handle was, it is absent after a failed
  \<^verbatim>\<open>connect_to_kdb\<close>. With the handle 7 present and no database, the call fails and
  the handle is still there.
\<close>

theorem connect_failure_clears_handle_counterexample:
  "fst (connect_to_kdb unreachable_world \<lparr>kdb_connection = Some 7\<rparr>) = Inr False \<and>
   kdb_connection (fst (snd (connect_to_kdb unreachable_world \<lparr>kdb_connection = Some 7\<rparr>)))
     \<noteq> None"
  by (simp add: connect_unreachable)

text \<open>
  C4, amended: a failed \<^verbatim>\<open>connect_to_kdb\<close> leaves the global as it was before the call:
  absent if it was absent, the same handle if one was present.
\<close>

theorem connect_failure_keeps_globals:
  assumes "fst (connect_to_kdb w s) = Inr False"
  shows "fst (snd (connect_to_kdb w s)) = s"
proof -
  obtain r s' tr where c: "connect_to_kdb w s = (r, s', tr)"
    by (cases "connect_to_kdb w s") auto
  with assms have "r = Inr False" by simp
  with connect_to_kdb_cases [OF c] have "s' = s" by auto
  with c show ?thesis by simp
qed

theorem connect_failure_keeps_globals_witness:
  "fst (connect_to_kdb unreachable_world \<lparr>kdb_connection = Some 7\<rparr>) = Inr False \<and>
   fst (snd (connect_to_kdb unreachable_world \<lparr>kdb_connection = Some 7\<rparr>))
     = \<lparr>kdb_connection = Some 7\<rparr> \<and>
   fst (connect_to_kdb unreachable_world \<lparr>kdb_connection = (None :: nat option)\<rparr>) = Inr False \<and>
   fst (snd (connect_to_kdb unreachable_world \<lparr>kdb_connection = None\<rparr>))
     = \<lparr>kdb_connection = (None :: nat option)\<rparr>"
proof -
  have a: "fst (connect_to_kdb unreachable_world \<lparr>kdb_connection = Some 7\<rparr>) = Inr False"
    by (simp add: connect_unreachable)
  have b: "fst (connect_to_kdb unreachable_world \<lparr>kdb_connection = (None :: nat option)\<rparr>)
      = Inr False"
    by (simp add: connect_unreachable)
  show ?thesis
    using connect_failure_keeps_globals [OF a] connect_failure_keeps_globals [OF b] a b
    by simp
qed

subsection \<open>Syntax validation and help\<close>

text \<open>
  C6: \<^verbatim>\<open>validate_syntax\<close> answers \<open>valid\<close> false with the one warning \<^verbatim>\<open>Empty query\<close> when
  every character of the query is whitespace (the empty query included), and \<open>valid\<close>
  true with no warning for every other query; nothing else of the query matters.
\<close>

theorem validate_syntax_rule:
  "validate_syntax w q =
     [(''query'', JStr q),
      (''valid'', JBool (\<not> (\<forall>c\<in>set q. py_isspace c))),
      (''warnings'', JList (if (\<forall>c\<in>set q. py_isspace c) then [JStr ''Empty query''] else [])),
      (''timestamp'', JStr (clock w 0))]"
  by (simp add: validate_syntax_def py_strip_Nil_iff [symmetric])

theorem validate_syntax_rule_witness:
  "map_of (validate_syntax reachable_world ''   '') ''valid'' = Some (JBool False) \<and>
   map_of (validate_syntax reachable_world ''   '') ''warnings''
     = Some (JList [JStr ''Empty query'']) \<and>
   map_of (validate_syntax reachable_world '''') ''valid'' = Some (JBool False) \<and>
   map_of (validate_syntax reachable_world '' select x '') ''valid'' = Some (JBool True) \<and>
   map_of (validate_syntax reachable_world '' select x '') ''warnings'' = Some (JList [])"
  using validate_syntax_rule [of reachable_world "''   ''"]
    validate_syntax_rule [of reachable_world "''''"]
    validate_syntax_rule [of reachable_world "'' select x ''"]
  by (simp add: py_isspace_def)

text \<open>
  C9: \<^verbatim>\<open>get_help\<close> returns a string for every topic: the usage line for the topic
  \<^verbatim>\<open>select\<close>, the list of topics for the empty topic and for every other topic.
\<close>

theorem get_help_lookup:
  "get_help ''select'' = ''KDB+ SELECT: select [columns] from table [where conditions]'' \<and>
   get_help '''' = ''Available help topics: select'' \<and>
   (topic \<noteq> ''select'' \<longrightarrow> get_help topic = ''Available help topics: select'')"
  by (simp add: get_help_def)

theorem get_help_lookup_witness:
  "''Select'' \<noteq> ''select'' \<and> get_help ''Select'' = ''Available help topics: select''"
  using get_help_lookup [of "''Select''"] by simp

subsection \<open>The status\<close>

text \<open>
  C7: \<^verbatim>\<open>get_connection_status\<close> leaves the global as it is and makes no call to the
  client; when it returns, its \<open>connected\<close> field says whether a handle is present; its
  outcome depends on the environment variables and the clock only, not on what the
  database would answer; after a successful \<^verbatim>\<open>connect_to_kdb\<close> (and the same
  environment) it reports \<open>connected\<close> true, and on the initial global it reports
  \<open>connected\<close> false.
\<close>

theorem status_pure_read:
  "snd (get_connection_status w s) = (s, []) \<and>
   (fst (get_connection_status w s) = Inr d \<longrightarrow>
      map_of d ''connected'' = Some (JBool (kdb_connection s \<noteq> None))) \<and>
   (getenv w' = getenv w \<and> clock w' = clock w \<longrightarrow>
      get_connection_status w' s = get_connection_status w s) \<and>
   (connect_to_kdb w s_before = (Inr True, s_after, tr) \<and> getenv w' = getenv w \<longrightarrow>
      (\<exists>d_after. get_connection_status w' s_after = (Inr d_after, s_after, []) \<and>
         map_of d_after ''connected'' = Some (JBool True))) \<and>
   (fst (get_connection_status w initial_globals) = Inr d_init \<longrightarrow>
      map_of d_init ''connected'' = Some (JBool False))"
proof (intro conjI impI)
  show "snd (get_connection_status w s) = (s, [])"
    by (simp add: get_connection_status_def split: sum.splits)
  show "map_of d ''connected'' = Some (JBool (kdb_connection s \<noteq> None))"
    if "fst (get_connection_status w s) = Inr d"
    using that by (auto simp: get_connection_status_def split: sum.splits)
  show "get_connection_status w' s = get_connection_status w s"
    if "getenv w' = getenv w \<and> clock w' = clock w"
  proof -
    from that have "getenv_host w' = getenv_host w" and "getenv_port w' = getenv_port w"
      and "clock w' = clock w"
      by (simp_all add: getenv_host_def getenv_port_def)
    then show ?thesis
      by (simp add: get_connection_status_def split: sum.splits)
  qed
  show "\<exists>d_after. get_connection_status w' s_after = (Inr d_after, s_after, []) \<and>
         map_of d_after ''connected'' = Some (JBool True)"
    if "connect_to_kdb w s_before = (Inr True, s_after, tr) \<and> getenv w' = getenv w"
  proof -
    from that have c: "connect_to_kdb w s_before = (Inr True, s_after, tr)"
      and g: "getenv w' = getenv w"
      by simp_all
    from connect_to_kdb_cases [OF c] obtain port h where
      "getenv_port w = Inr port" and "s_after = s_before\<lparr>kdb_connection := Some h\<rparr>"
      by auto
    moreover from g have "getenv_port w' = getenv_port w"
      by (simp add: getenv_port_def)
    ultimately show ?thesis
      by (simp add: get_connection_status_def)
  qed
  show "map_of d_init ''connected'' = Some (JBool False)"
    if "fst (get_connection_status w initial_globals) = Inr d_init"
    using that by (auto simp: get_connection_status_def initial_globals_def split: sum.splits)
qed

theorem status_pure_read_witness:
  "connect_to_kdb reachable_world initial_globals =
     (Inr True, \<lparr>kdb_connection = Some 1\<rparr>, [EvOpen ''localhost'' 4000]) \<and>
   get_connection_status unreachable_world \<lparr>kdb_connection = Some 1\<rparr> =
     (Inr [(''connected'', JBool True), (''host'', JStr ''localhost''), (''port'', JInt 4000),
           (''timestamp'', JStr ''2024-01-01T00:00:00'')],
      \<lparr>kdb_connection = Some 1\<rparr>, []) \<and>
   get_connection_status unreachable_world initial_globals =
     (Inr [(''connected'', JBool False), (''host'', JStr ''localhost''), (''port'', JInt 4000),
           (''timestamp'', JStr ''2024-01-01T00:00:00'')],
      initial_globals, [])"
proof -
  have g: "getenv unreachable_world = getenv reachable_world"
    by (simp add: world_defs)
  have i: "fst (get_connection_status unreachable_world (initial_globals :: nat globals)) =
     Inr [(''connected'', JBool False), (''host'', JStr ''localhost''), (''port'', JInt 4000),
          (''timestamp'', JStr ''2024-01-01T00:00:00'')]"
    by (simp add: get_connection_status_def world_defs initial_globals_def)
  show ?thesis
    using status_pure_read [where w = reachable_world and w' = unreachable_world
        and s = "\<lparr>kdb_connection = Some 1\<rparr>" and s_before = initial_globals
        and s_after = "\<lparr>kdb_connection = Some 1\<rparr>" and tr = "[EvOpen ''localhost'' 4000]"]
      connect_reachable g i
    by (simp add: get_connection_status_def world_defs initial_globals_def)
qed

subsection \<open>The order of the calls to the client\<close>

text \<open>
  C8: whenever a call of \<^verbatim>\<open>execute_kdb_query\<close> submits a query with \<^verbatim>\<open>sync\<close>, the
  submission is the last call it makes, it carries the query given, and the call just
  before it is \<^verbatim>\<open>connect()\<close> on the same handle, which is the global handle; before
  these two there is at most the \<^verbatim>\<open>kola.Q\<close> of a fresh connection. When a handle was
  present at the start, the calls are exactly \<^verbatim>\<open>connect()\<close> and \<^verbatim>\<open>sync\<close> on that handle.
\<close>

theorem handshake_precedes_sync:
  assumes "execute_kdb_query w q s = (r, s', tr)" and "EvSync h q' \<in> set tr"
  shows "q' = q \<and> kdb_connection s' = Some h \<and>
         (\<exists>pre. tr = pre @ [EvConnect h, EvSync h q] \<and>
            (\<forall>e\<in>set pre. \<exists>host port. e = EvOpen host port)) \<and>
         (kdb_connection s \<noteq> None \<longrightarrow>
            kdb_connection s = Some h \<and> tr = [EvConnect h, EvSync h q])"
  using assms
  by (auto simp: execute_kdb_query_def submit_def
      split: if_splits prod.splits sum.splits bool.splits option.splits
      dest!: on_exception_cases connect_to_kdb_cases)

theorem handshake_precedes_sync_witness:
  "EvSync (5::nat) ''1+1'' \<in> set [EvConnect 5, EvSync 5 ''1+1''] \<and>
   execute_kdb_query reachable_world ''1+1'' \<lparr>kdb_connection = Some 5\<rparr> =
     (Inr (success_envelope 2 ''int'' ''1+1'' ''2024-01-01T00:00:00''),
      \<lparr>kdb_connection = Some 5\<rparr>, [EvConnect 5, EvSync 5 ''1+1''])"
proof -
  have m: "EvSync 5 ''1+1'' \<in> set [EvConnect 5, EvSync (5::nat) ''1+1'']"
    by simp
  show ?thesis
    using handshake_precedes_sync [OF execute_present_ok m] execute_present_ok m
    by simp
qed

subsection \<open>The handle is never cleared\<close>

text \<open>
  C10: a handle that is present stays present through every sequence of calls; and when
  \<^verbatim>\<open>execute_kdb_query\<close> starts without a handle and its \<^verbatim>\<open>connect_to_kdb\<close> succeeds, the
  handle is present when the call ends, whatever became of the query, it is still present
  after any further calls, and a status that returns then reports \<open>connected\<close> true.
\<close>

theorem handle_presence_monotone:
  "(kdb_connection s \<noteq> None \<longrightarrow> kdb_connection (after_calls cs s) \<noteq> None) \<and>
   (kdb_connection s = None \<and> fst (connect_to_kdb w s) = Inr True \<and>
    execute_kdb_query w q s = (r, s', tr) \<longrightarrow>
      kdb_connection s' \<noteq> None \<and> kdb_connection (after_calls cs s') \<noteq> None \<and>
      (\<forall>d. fst (get_connection_status w' (after_calls cs s')) = Inr d \<longrightarrow>
         map_of d ''connected'' = Some (JBool True)))"
proof (intro conjI impI)
  show "kdb_connection (after_calls cs s) \<noteq> None" if "kdb_connection s \<noteq> None"
    using that by (rule after_calls_present)
next
  assume a: "kdb_connection s = None \<and> fst (connect_to_kdb w s) = Inr True \<and>
    execute_kdb_query w q s = (r, s', tr)"
  then have n: "kdb_connection s = None" and e: "execute_kdb_query w q s = (r, s', tr)"
    by simp_all
  obtain r1 s1 tr1 where c: "connect_to_kdb w s = (r1, s1, tr1)"
    by (cases "connect_to_kdb w s") auto
  with a have r1: "r1 = Inr True" by simp
  from connect_to_kdb_cases [OF c] r1 obtain h where s1: "s1 = s\<lparr>kdb_connection := Some h\<rparr>"
    by auto
  from n e c r1 have "submit w q s1 tr1 = (r, s', tr)"
    by (simp add: execute_kdb_query_def)
  then have "s' = s1" by (rule submit_state)
  with s1 show p: "kdb_connection s' \<noteq> None" by simp
  then show p': "kdb_connection (after_calls cs s') \<noteq> None"
    by (rule after_calls_present)
  then show "\<forall>d. fst (get_connection_status w' (after_calls cs s')) = Inr d \<longrightarrow>
         map_of d ''connected'' = Some (JBool True)"
    by (auto simp: get_connection_status_def split: sum.splits)
qed

theorem handle_presence_monotone_witness:
  "kdb_connection (initial_globals :: nat globals) = None \<and>
   fst (connect_to_kdb reachable_world initial_globals) = Inr True \<and>
   execute_kdb_query reachable_world '' bad '' initial_globals =
     (Inr (failure_envelope ''parse'' '' bad '' ''2024-01-01T00:00:00''),
      \<lparr>kdb_connection = Some 1\<rparr>, [EvOpen ''localhost'' 4000, EvConnect 1, EvSync 1 '' bad '']) \<and>
   fst (get_connection_status unreachable_world \<lparr>kdb_connection = Some (1::nat)\<rparr>) =
     Inr [(''connected'', JBool True), (''host'', JStr ''localhost''), (''port'', JInt 4000),
          (''timestamp'', JStr ''2024-01-01T00:00:00'')]"
proof -
  have n: "kdb_connection (initial_globals :: nat globals) = None"
    by (simp add: initial_globals_def)
  have c: "fst (connect_to_kdb reachable_world initial_globals) = Inr True"
    by (simp add: connect_reachable)
  have g: "fst (get_connection_status unreachable_world \<lparr>kdb_connection = Some (1::nat)\<rparr>) =
     Inr [(''connected'', JBool True), (''host'', JStr ''localhost''), (''port'', JInt 4000),
          (''timestamp'', JStr ''2024-01-01T00:00:00'')]"
    by (simp add: get_connection_status_def world_defs)
  show ?thesis
    using handle_presence_monotone [where s = initial_globals and cs = "[]"
        and w = reachable_world and q = "'' bad ''"
        and r = "Inr (failure_envelope ''parse'' '' bad '' ''2024-01-01T00:00:00'')"
        and s' = "\<lparr>kdb_connection = Some 1\<rparr>"
        and tr = "[EvOpen ''localhost'' 4000, EvConnect 1, EvSync 1 '' bad '']"
        and w' = unreachable_world]
      n c g execute_reachable_bad
    by simp
qed

end
